theory Spec2Isabelle
  imports Main
begin

section \<open>The server listing endpoint of djchat: \<open>src/server/views.py\<close>\<close>

text \<open>
  This theory embeds \<open>ServerListViewSet.get_filtered_queryset\<close> and its two helpers
  \<open>filter_by_server_id\<close> and \<open>limit_results\<close>. The view works on a Django \<open>QuerySet\<close> of
  \<open>Server\<close> rows; the parts of Django and of Python that the view calls (\<open>int\<close>,
  \<open>QuerySet.filter\<close>, \<open>annotate\<close>, \<open>exists\<close>, slicing) are modelled as far as the view uses
  them. Strings are Python strings over the code points below 256.
\<close>

subsection \<open>Python: exceptions, truthiness, \<open>int(str)\<close>\<close>

text \<open>
  The exceptions that occur in the view. \<open>ValueError\<close> is raised by \<open>int\<close> and by Django and
  is caught inside the helpers; \<open>AuthenticationFailed\<close> and \<open>ValidationError\<close> (both from
  \<open>rest_framework.exceptions\<close>) are what the view raises. \<open>ValidationError\<close> carries its
  \<open>detail\<close> string.
\<close>

datatype exn = ValueError | AuthenticationFailed | ValidationError string

text \<open>The exception classes, to compare the class of two raised exceptions.\<close>

datatype exn_class = ValueError_class | AuthenticationFailed_class | ValidationError_class

fun class_of :: "exn \<Rightarrow> exn_class" where
  "class_of ValueError = ValueError_class"
| "class_of AuthenticationFailed = AuthenticationFailed_class"
| "class_of (ValidationError detail) = ValidationError_class"

text \<open>
  \<open>if x:\<close> for the result of \<open>query_params.get(key)\<close>, which is \<open>None\<close> or a string:
  \<open>None\<close> and the empty string are false.
\<close>

fun truthy :: "string option \<Rightarrow> bool" where
  "truthy None = False"
| "truthy (Some s) = (s \<noteq> [])"

text \<open>
  \<open>query_params.get(key) == "true"\<close>, the test that reads the two boolean parameters.
\<close>

definition is_true :: "string option \<Rightarrow> bool" where
  "is_true raw \<longleftrightarrow> raw = Some ''true''"

text \<open>
  \<open>int(s)\<close> for a string \<open>s\<close>, base 10: surrounding whitespace is skipped, one sign
  \<open>+\<close> or \<open>-\<close> may follow, then come decimal digits, where single underscores may stand
  between two digits. Anything else raises \<open>ValueError\<close> (here \<open>None\<close>). Below code point
  256 the whitespace characters are tab, line feed, vertical tab, form feed, carriage return
  and space, and, in a string that is not pure ASCII, next line (0x85) and no-break space
  (0xA0); the decimal digits are \<open>0\<close> to \<open>9\<close>. The limit that recent Python versions put
  on the number of digits (4300 by default) is left out.
\<close>

definition is_space :: "char \<Rightarrow> bool" where
  "is_space c \<longleftrightarrow>
     c \<in> set [CHR 0x09, CHR 0x0A, CHR 0x0B, CHR 0x0C, CHR 0x0D, CHR 0x20, CHR 0x85, CHR 0xA0]"

definition is_digit :: "char \<Rightarrow> bool" where
  "is_digit c \<longleftrightarrow> c \<in> set ''0123456789''"

definition digit_val :: "char \<Rightarrow> int" where
  "digit_val c = int (of_char c) - 48"

definition strip :: "string \<Rightarrow> string" where
  "strip s = rev (dropWhile is_space (rev (dropWhile is_space s)))"

text \<open>The digits after the first one: \<open>acc\<close> is the value of the digits read so far.\<close>

fun more_digits :: "string \<Rightarrow> int \<Rightarrow> int option" where
  "more_digits [] acc = Some acc"
| "more_digits [c] acc = (if is_digit c then Some (10 * acc + digit_val c) else None)"
| "more_digits (c # d # cs) acc =
     (if is_digit c then more_digits (d # cs) (10 * acc + digit_val c)
      else if c = CHR ''_'' \<and> is_digit d then more_digits cs (10 * acc + digit_val d)
      else None)"

fun unsigned_int :: "string \<Rightarrow> int option" where
  "unsigned_int [] = None"
| "unsigned_int (c # cs) = (if is_digit c then more_digits cs (digit_val c) else None)"

definition python_int :: "string \<Rightarrow> int option" where
  "python_int s =
     (case strip s of
        [] \<Rightarrow> None
      | c # cs \<Rightarrow>
          if c = CHR ''-'' then map_option uminus (unsigned_int cs)
          else if c = CHR ''+'' then unsigned_int cs
          else unsigned_int (c # cs))"

subsection \<open>The data: servers, the caller, the request\<close>

text \<open>
  Modelled from the spec: \<open>models.py\<close> is not among the sources. A \<open>Server\<close> has an integer
  \<open>id\<close>, a name, a category (of which the view reads the name, \<open>category__name\<close>) and a
  many-to-many relation \<open>member\<close> to users. \<open>srv_member\<close> lists the user ids of the rows
  of the relation's table that belong to the server; the table holds each pair of server and
  user at most once.
\<close>

record server =
  srv_id :: int
  srv_name :: string
  srv_category_name :: string
  srv_member :: "int list"

text \<open>
  \<open>request.user\<close>: Django's \<open>AnonymousUser\<close>, whose \<open>is_authenticated\<close> is false, or
  a user of the user table, whose \<open>is_authenticated\<close> is true and who has an \<open>id\<close>.
\<close>

datatype user = AnonymousUser | User int

fun is_authenticated :: "user \<Rightarrow> bool" where
  "is_authenticated AnonymousUser = False"
| "is_authenticated (User uid) = True"

fun user_id :: "user \<Rightarrow> int option" where
  "user_id AnonymousUser = None"
| "user_id (User uid) = Some uid"

text \<open>
  The request: \<open>query_params\<close> is the dictionary of query parameters, so that
  \<open>request.query_params.get(k)\<close> is \<open>query_params request k\<close>.
\<close>

record request =
  query_params :: "string \<rightharpoonup> string"
  req_user :: user

subsection \<open>Django: the query set\<close>

text \<open>
  A row of the result: the server and, once the query set is annotated, \<open>num_members\<close>.
\<close>

record row =
  obj :: server
  num_members :: "nat option"

text \<open>
  A query set is lazy, and the database does not change during a request, so the model
  holds the rows the query would return, in the order of the underlying collection.
  \<open>member_join\<close> records the condition that an earlier \<open>filter(member=uid)\<close> has put on
  the join with the member table: a later \<open>Count("member")\<close> uses the same join and
  counts the rows of the join that the condition leaves (Django documents this under
  ``order of annotate() and filter() clauses'').
\<close>

record queryset =
  rows :: "row list"
  member_join :: "int option"

definition all_objects :: "server list \<Rightarrow> queryset" where
  "all_objects db = \<lparr>rows = map (\<lambda>s. \<lparr>obj = s, num_members = None\<rparr>) db, member_join = None\<rparr>"

text \<open>\<open>queryset.filter(category__name=category)\<close>\<close>

definition filter_category_name :: "queryset \<Rightarrow> string \<Rightarrow> queryset" where
  "filter_category_name qs category =
     qs\<lparr>rows := filter (\<lambda>r. srv_category_name (obj r) = category) (rows qs)\<rparr>"

text \<open>\<open>queryset.filter(member=uid)\<close>\<close>

definition filter_member :: "queryset \<Rightarrow> int \<Rightarrow> queryset" where
  "filter_member qs uid =
     qs\<lparr>rows := filter (\<lambda>r. uid \<in> set (srv_member (obj r))) (rows qs), member_join := Some uid\<rparr>"

text \<open>
  \<open>Count("member")\<close> for one server: the number of rows of the member join, under the
  condition on the join if there is one.
\<close>

fun count_member :: "int option \<Rightarrow> server \<Rightarrow> nat" where
  "count_member None s = length (srv_member s)"
| "count_member (Some uid) s = length (filter (\<lambda>m. m = uid) (srv_member s))"

text \<open>\<open>queryset.annotate(num_members=Count("member"))\<close>\<close>

definition annotate_num_members :: "queryset \<Rightarrow> queryset" where
  "annotate_num_members qs =
     qs\<lparr>rows := map (\<lambda>r. r\<lparr>num_members := Some (count_member (member_join qs) (obj r))\<rparr>) (rows qs)\<rparr>"

text \<open>
  \<open>queryset.filter(id=value)\<close> for a string \<open>value\<close>: the field converts the value
  with \<open>int\<close> when the lookup is built, and the \<open>ValueError\<close> of \<open>int\<close> is raised again
  as a \<open>ValueError\<close>. The ids are compared as integers; the range of the database
  column is left out.
\<close>

definition filter_id :: "queryset \<Rightarrow> string \<Rightarrow> exn + queryset" where
  "filter_id qs v =
     (case python_int v of
        None \<Rightarrow> Inl ValueError
      | Some n \<Rightarrow> Inr (qs\<lparr>rows := filter (\<lambda>r. srv_id (obj r) = n) (rows qs)\<rparr>))"

text \<open>\<open>queryset.exists()\<close>\<close>

definition exists :: "queryset \<Rightarrow> bool" where
  "exists qs \<longleftrightarrow> rows qs \<noteq> []"

text \<open>
  \<open>queryset[:n]\<close>: Django (from 4.0 on) raises \<open>ValueError\<close> for a negative bound,
  ``Negative indexing is not supported''; before 4.0 it was an \<open>AssertionError\<close>.
\<close>

definition slice_to :: "queryset \<Rightarrow> int \<Rightarrow> exn + queryset" where
  "slice_to qs n = (if n < 0 then Inl ValueError else Inr (qs\<lparr>rows := take (nat n) (rows qs)\<rparr>))"

subsection \<open>The view\<close>

text \<open>
  \<open>filter_by_server_id\<close>: the \<open>ValidationError\<close> raised inside the \<open>try\<close> block is not
  a \<open>ValueError\<close> and passes the \<open>except\<close> clause.
\<close>

definition filter_by_server_id :: "request \<Rightarrow> queryset \<Rightarrow> string \<Rightarrow> exn + queryset" where
  "filter_by_server_id request queryset by_serverid =
     (if \<not> is_authenticated (req_user request) then Inl AuthenticationFailed
      else
        case filter_id queryset by_serverid of
          Inl e \<Rightarrow>
            if e = ValueError then Inl (ValidationError ''Server id must be an integer'')
            else Inl e
        | Inr queryset' \<Rightarrow>
            if \<not> exists queryset'
            then Inl (ValidationError (''Server with id-'' @ by_serverid @ '' not found''))
            else Inr queryset')"

text \<open>\<open>limit_results\<close>: both \<open>int(qty)\<close> and the slice are inside the \<open>try\<close> block.\<close>

definition limit_results :: "queryset \<Rightarrow> string \<Rightarrow> exn + queryset" where
  "limit_results queryset qty =
     (case (case python_int qty of None \<Rightarrow> Inl ValueError | Some n \<Rightarrow> slice_to queryset n) of
        Inl e \<Rightarrow>
          if e = ValueError then Inl (ValidationError ''qty must be an integer'')
          else Inl e
      | Inr queryset' \<Rightarrow> Inr queryset')"

text \<open>The steps of \<open>get_filtered_queryset\<close>, in the order of the source.\<close>

definition category_step :: "request \<Rightarrow> queryset \<Rightarrow> queryset" where
  "category_step request queryset =
     (let category = query_params request ''category''
      in if truthy category then filter_category_name queryset (the category) else queryset)"

definition by_user_step :: "request \<Rightarrow> queryset \<Rightarrow> exn + queryset" where
  "by_user_step request queryset =
     (let by_user = is_true (query_params request ''by_user'')
      in if by_user then
           (if is_authenticated (req_user request)
            then Inr (filter_member queryset (the (user_id (req_user request))))
            else Inl AuthenticationFailed)
         else Inr queryset)"

definition with_num_members_step :: "request \<Rightarrow> queryset \<Rightarrow> queryset" where
  "with_num_members_step request queryset =
     (let with_num_members = is_true (query_params request ''with_num_members'')
      in if with_num_members then annotate_num_members queryset else queryset)"

definition by_serverid_step :: "request \<Rightarrow> queryset \<Rightarrow> exn + queryset" where
  "by_serverid_step request queryset =
     (let by_serverid = query_params request ''by_serverid''
      in if truthy by_serverid then filter_by_server_id request queryset (the by_serverid)
         else Inr queryset)"

definition qty_step :: "request \<Rightarrow> queryset \<Rightarrow> exn + queryset" where
  "qty_step request queryset =
     (let qty = query_params request ''qty''
      in if truthy qty then limit_results queryset (the qty) else Inr queryset)"

definition get_filtered_queryset :: "queryset \<Rightarrow> request \<Rightarrow> exn + queryset" where
  "get_filtered_queryset self_queryset request =
     (case by_user_step request (category_step request self_queryset) of
        Inl e \<Rightarrow> Inl e
      | Inr queryset \<Rightarrow>
          (case by_serverid_step request (with_num_members_step request queryset) of
             Inl e \<Rightarrow> Inl e
           | Inr queryset' \<Rightarrow> qty_step request queryset'))"

section \<open>Properties of the steps\<close>

lemmas step_defs = category_step_def by_user_step_def with_num_members_step_def
  by_serverid_step_def qty_step_def

lemmas python_int_eval = python_int_def strip_def is_space_def is_digit_def digit_val_def

lemmas view_eval = get_filtered_queryset_def step_defs is_true_def filter_by_server_id_def
  limit_results_def filter_id_def slice_to_def exists_def all_objects_def filter_category_name_def
  filter_member_def annotate_num_members_def python_int_eval

subsection \<open>The by-user step\<close>

lemma by_user_step_anonymous:
  "is_true (query_params request ''by_user'') \<Longrightarrow> \<not> is_authenticated (req_user request) \<Longrightarrow>
   by_user_step request q = Inl AuthenticationFailed"
  by (simp add: by_user_step_def)

lemma by_user_step_authenticated:
  "is_authenticated (req_user request) \<Longrightarrow>
   by_user_step request q =
     Inr (if is_true (query_params request ''by_user'')
          then filter_member q (the (user_id (req_user request))) else q)"
  by (simp add: by_user_step_def)


lemma by_user_step_error:
  "by_user_step request q = Inl e \<Longrightarrow> e = AuthenticationFailed"
  by (simp add: by_user_step_def split: if_splits)

subsection \<open>The annotation\<close>




text \<open>
  Without a condition on the member join, the annotation is the number of members of each
  server, and it keeps the servers and their order.
\<close>

lemma annotate_num_members_unfiltered:
  assumes "member_join q = None"
  shows "map obj (rows (annotate_num_members q)) = map obj (rows q)
       \<and> (\<forall>r \<in> set (rows (annotate_num_members q)).
            num_members r = Some (length (srv_member (obj r))))"
  using assms by (simp add: annotate_num_members_def comp_def)

subsection \<open>The by-server-ID step\<close>

lemma filter_by_server_id_anonymous:
  "\<not> is_authenticated (req_user request) \<Longrightarrow>
   filter_by_server_id request q sid = Inl AuthenticationFailed"
  by (simp add: filter_by_server_id_def)

lemma filter_by_server_id_not_integer:
  "is_authenticated (req_user request) \<Longrightarrow> python_int sid = None \<Longrightarrow>
   filter_by_server_id request q sid = Inl (ValidationError ''Server id must be an integer'')"
  by (simp add: filter_by_server_id_def filter_id_def)

lemma filter_by_server_id_not_found:
  "is_authenticated (req_user request) \<Longrightarrow> python_int sid = Some n \<Longrightarrow>
   \<forall>r \<in> set (rows q). srv_id (obj r) \<noteq> n \<Longrightarrow>
   filter_by_server_id request q sid =
     Inl (ValidationError (''Server with id-'' @ sid @ '' not found''))"
  by (simp add: filter_by_server_id_def filter_id_def exists_def filter_empty_conv)

lemma filter_by_server_id_found:
  "is_authenticated (req_user request) \<Longrightarrow> python_int sid = Some n \<Longrightarrow>
   \<exists>r \<in> set (rows q). srv_id (obj r) = n \<Longrightarrow>
   filter_by_server_id request q sid =
     Inr (q\<lparr>rows := filter (\<lambda>r. srv_id (obj r) = n) (rows q)\<rparr>)"
  by (auto simp add: filter_by_server_id_def filter_id_def exists_def filter_empty_conv)


subsection \<open>The quantity limit\<close>

lemma limit_results_not_integer:
  "python_int qty = None \<Longrightarrow>
   limit_results q qty = Inl (ValidationError ''qty must be an integer'')"
  by (simp add: limit_results_def)


text \<open>No \<open>ValueError\<close> leaves the view: the helpers turn each one into a \<open>ValidationError\<close>.\<close>

lemma filter_by_server_id_no_ValueError:
  "filter_by_server_id request q sid \<noteq> Inl ValueError"
  by (simp add: filter_by_server_id_def filter_id_def split: option.splits)

lemma limit_results_no_ValueError:
  "limit_results q qty \<noteq> Inl ValueError"
  by (simp add: limit_results_def slice_to_def split: option.splits)

lemma get_filtered_queryset_no_ValueError:
  "get_filtered_queryset self_queryset request \<noteq> Inl ValueError"
proof (cases "by_user_step request (category_step request self_queryset)")
  case (Inl e)
  then show ?thesis
    using by_user_step_error [OF Inl] by (simp add: get_filtered_queryset_def)
next
  case u: (Inr u)
  show ?thesis
  proof (cases "by_serverid_step request (with_num_members_step request u)")
    case (Inl e)
    then have "e \<noteq> ValueError"
      by (auto simp add: by_serverid_step_def Let_def filter_by_server_id_no_ValueError
          split: if_splits)
    with u Inl show ?thesis by (simp add: get_filtered_queryset_def)
  next
    case (Inr v)
    have "qty_step request v \<noteq> Inl ValueError"
      by (simp add: qty_step_def Let_def limit_results_no_ValueError)
    with u Inr show ?thesis by (simp add: get_filtered_queryset_def)
  qed
qed

section \<open>The claims\<close>

text \<open>
  Claim C1. If \<open>by_user\<close> is \<open>"true"\<close> and the caller is not authenticated, the view
  raises \<open>AuthenticationFailed\<close>, whatever the other query parameters are: the by-user step
  itself fails, and the result is the same for every value of the parameters that the later
  steps read (\<open>with_num_members\<close>, \<open>by_serverid\<close>, \<open>qty\<close>), so none of these steps
  contributes a result or an error of its own.
\<close>

theorem by_user_unauthenticated:
  assumes "query_params request ''by_user'' = Some ''true''"
      and "\<not> is_authenticated (req_user request)"
  shows "by_user_step request (category_step request self_queryset) = Inl AuthenticationFailed
       \<and> get_filtered_queryset self_queryset request = Inl AuthenticationFailed
       \<and> get_filtered_queryset self_queryset
            (request\<lparr>query_params := (query_params request)
               (''with_num_members'' := w, ''by_serverid'' := s, ''qty'' := q)\<rparr>)
           = Inl AuthenticationFailed"
  using assms by (simp add: get_filtered_queryset_def by_user_step_anonymous is_true_def)

theorem by_user_unauthenticated_witness:
  "query_params \<lparr>query_params = map_of [(''by_user'', ''true''), (''with_num_members'', ''true''), (''by_serverid'', ''abc''), (''qty'', ''2'')], req_user = AnonymousUser\<rparr> ''by_user'' = Some ''true''
   \<and> \<not> is_authenticated (req_user \<lparr>query_params = map_of [(''by_user'', ''true''), (''with_num_members'', ''true''), (''by_serverid'', ''abc''), (''qty'', ''2'')], req_user = AnonymousUser\<rparr>)
   \<and> get_filtered_queryset
        (all_objects [\<lparr>srv_id = 1, srv_name = ''a'', srv_category_name = ''X'', srv_member = [1, 2]\<rparr>])
        \<lparr>query_params = map_of [(''by_user'', ''true''), (''with_num_members'', ''true''), (''by_serverid'', ''abc''), (''qty'', ''2'')], req_user = AnonymousUser\<rparr>
       = Inl AuthenticationFailed"
  using by_user_unauthenticated [of
      "\<lparr>query_params = map_of [(''by_user'', ''true''), (''with_num_members'', ''true''), (''by_serverid'', ''abc''), (''qty'', ''2'')], req_user = AnonymousUser\<rparr>"
      "all_objects [\<lparr>srv_id = 1, srv_name = ''a'', srv_category_name = ''X'', srv_member = [1, 2]\<rparr>]"]
  by simp



text \<open>
  Claim C3, as amended. The view raises two classes of exception. The authentication failure
  is an \<open>AuthenticationFailed\<close>. The failure for a \<open>by_serverid\<close> that matches no record and
  the failures for a \<open>by_serverid\<close> or a \<open>qty\<close> that is not an integer are all of the one
  class \<open>ValidationError\<close>; they differ in their messages only, and the message of the
  not-found failure differs from both other messages for every \<open>by_serverid\<close>.
\<close>

theorem error_classes:
  assumes "is_authenticated (req_user request)"
      and "python_int by_serverid = Some n"
      and "\<forall>r \<in> set (rows queryset). srv_id (obj r) \<noteq> n"
      and "python_int other_serverid = None"
      and "python_int qty = None"
      and "\<not> is_authenticated (req_user anonymous_request)"
  shows "filter_by_server_id request queryset by_serverid =
           Inl (ValidationError (''Server with id-'' @ by_serverid @ '' not found''))
       \<and> filter_by_server_id request queryset2 other_serverid =
           Inl (ValidationError ''Server id must be an integer'')
       \<and> limit_results queryset3 qty = Inl (ValidationError ''qty must be an integer'')
       \<and> filter_by_server_id anonymous_request queryset4 any_serverid = Inl AuthenticationFailed
       \<and> class_of (ValidationError (''Server with id-'' @ by_serverid @ '' not found''))
           = class_of (ValidationError ''Server id must be an integer'')
       \<and> class_of (ValidationError (''Server with id-'' @ by_serverid @ '' not found''))
           = class_of (ValidationError ''qty must be an integer'')
       \<and> class_of AuthenticationFailed
           \<noteq> class_of (ValidationError (''Server with id-'' @ by_serverid @ '' not found''))
       \<and> ValidationError (''Server with id-'' @ by_serverid @ '' not found'')
           \<noteq> ValidationError ''Server id must be an integer''
       \<and> ValidationError (''Server with id-'' @ by_serverid @ '' not found'')
           \<noteq> ValidationError ''qty must be an integer''"
  using assms
  by (simp add: filter_by_server_id_not_found filter_by_server_id_not_integer
      limit_results_not_integer filter_by_server_id_anonymous)

theorem error_classes_witness:
  "python_int ''99999'' = Some 99999 \<and> python_int ''abc'' = None
   \<and> filter_by_server_id \<lparr>query_params = map_of [], req_user = User 1\<rparr>
        (all_objects [\<lparr>srv_id = 1, srv_name = ''a'', srv_category_name = ''X'', srv_member = [1, 2]\<rparr>]) ''99999''
       = Inl (ValidationError ''Server with id-99999 not found'')
   \<and> filter_by_server_id \<lparr>query_params = map_of [], req_user = User 1\<rparr>
        (all_objects [\<lparr>srv_id = 1, srv_name = ''a'', srv_category_name = ''X'', srv_member = [1, 2]\<rparr>]) ''abc''
       = Inl (ValidationError ''Server id must be an integer'')
   \<and> limit_results (all_objects [\<lparr>srv_id = 1, srv_name = ''a'', srv_category_name = ''X'', srv_member = [1, 2]\<rparr>]) ''abc''
       = Inl (ValidationError ''qty must be an integer'')
   \<and> filter_by_server_id \<lparr>query_params = map_of [], req_user = AnonymousUser\<rparr>
        (all_objects [\<lparr>srv_id = 1, srv_name = ''a'', srv_category_name = ''X'', srv_member = [1, 2]\<rparr>]) ''99999''
       = Inl AuthenticationFailed"
  using error_classes [of
      "\<lparr>query_params = map_of [], req_user = User 1\<rparr>"
      "''99999''" 99999
      "all_objects [\<lparr>srv_id = 1, srv_name = ''a'', srv_category_name = ''X'', srv_member = [1, 2]\<rparr>]"
      "''abc''" "''abc''"
      "\<lparr>query_params = map_of [], req_user = AnonymousUser\<rparr>"
      "all_objects [\<lparr>srv_id = 1, srv_name = ''a'', srv_category_name = ''X'', srv_member = [1, 2]\<rparr>]"
      "all_objects [\<lparr>srv_id = 1, srv_name = ''a'', srv_category_name = ''X'', srv_member = [1, 2]\<rparr>]"
      "all_objects [\<lparr>srv_id = 1, srv_name = ''a'', srv_category_name = ''X'', srv_member = [1, 2]\<rparr>]"
      "''99999''"]
  by (simp add: python_int_eval all_objects_def)

text \<open>
  The claim as stated fails: the not-found failure and the invalid-parameter failure are
  exceptions of the same class.
\<close>

theorem error_classes_counterexample:
  "get_filtered_queryset
        (all_objects [\<lparr>srv_id = 1, srv_name = ''a'', srv_category_name = ''X'', srv_member = [1, 2]\<rparr>])
        \<lparr>query_params = map_of [(''by_serverid'', ''99999'')], req_user = User 1\<rparr>
     = Inl (ValidationError ''Server with id-99999 not found'')
   \<and> get_filtered_queryset
        (all_objects [\<lparr>srv_id = 1, srv_name = ''a'', srv_category_name = ''X'', srv_member = [1, 2]\<rparr>])
        \<lparr>query_params = map_of [(''by_serverid'', ''abc'')], req_user = User 1\<rparr>
     = Inl (ValidationError ''Server id must be an integer'')
   \<and> class_of (ValidationError ''Server with id-99999 not found'')
     = class_of (ValidationError ''Server id must be an integer'')"
  by (simp add: view_eval)

text \<open>
  Claim C4, as amended. For every collection and every \<open>qty\<close> that \<open>int\<close> accepts and that
  is not negative, the quantity limit returns the first \<open>min(qty, length)\<close> rows in their
  order and raises nothing: \<open>qty = 0\<close> gives the empty collection, a \<open>qty\<close> of at least
  the length gives the collection unchanged, and \<open>qty="2"\<close> on five rows gives the first
  two. A negative \<open>qty\<close> is not sliced: the query set rejects a negative bound and
  the step raises.
\<close>

theorem limit_results_slice:
  assumes "python_int qty = Some n"
  shows "(0 \<le> n \<longrightarrow>
            limit_results queryset qty =
              Inr (queryset\<lparr>rows := take (min (nat n) (length (rows queryset))) (rows queryset)\<rparr>))
       \<and> (n = 0 \<longrightarrow> limit_results queryset qty = Inr (queryset\<lparr>rows := []\<rparr>))
       \<and> (int (length (rows queryset)) \<le> n \<longrightarrow> limit_results queryset qty = Inr queryset)
       \<and> (n < 0 \<longrightarrow> (\<exists>e. limit_results queryset qty = Inl e))"
  using assms
  by (simp add: limit_results_def slice_to_def min_def)

theorem limit_results_slice_witness:
  "python_int ''2'' = Some 2
   \<and> limit_results
        (all_objects
          [\<lparr>srv_id = 1, srv_name = ''s'', srv_category_name = ''X'', srv_member = []\<rparr>,
           \<lparr>srv_id = 2, srv_name = ''s'', srv_category_name = ''X'', srv_member = []\<rparr>,
           \<lparr>srv_id = 3, srv_name = ''s'', srv_category_name = ''X'', srv_member = []\<rparr>,
           \<lparr>srv_id = 4, srv_name = ''s'', srv_category_name = ''X'', srv_member = []\<rparr>,
           \<lparr>srv_id = 5, srv_name = ''s'', srv_category_name = ''X'', srv_member = []\<rparr>]) ''2''
     = Inr (all_objects
          [\<lparr>srv_id = 1, srv_name = ''s'', srv_category_name = ''X'', srv_member = []\<rparr>,
           \<lparr>srv_id = 2, srv_name = ''s'', srv_category_name = ''X'', srv_member = []\<rparr>])"
  using limit_results_slice [of "''2''" 2
      "all_objects
          [\<lparr>srv_id = 1, srv_name = ''s'', srv_category_name = ''X'', srv_member = []\<rparr>,
           \<lparr>srv_id = 2, srv_name = ''s'', srv_category_name = ''X'', srv_member = []\<rparr>,
           \<lparr>srv_id = 3, srv_name = ''s'', srv_category_name = ''X'', srv_member = []\<rparr>,
           \<lparr>srv_id = 4, srv_name = ''s'', srv_category_name = ''X'', srv_member = []\<rparr>,
           \<lparr>srv_id = 5, srv_name = ''s'', srv_category_name = ''X'', srv_member = []\<rparr>]"]
  by (simp add: python_int_eval all_objects_def)

text \<open>
  The claim as stated fails for a negative \<open>qty\<close>: \<open>qty="-1"\<close> is accepted by \<open>int\<close>, the
  slice \<open>queryset[:-1]\<close> raises \<open>ValueError\<close>, and the step raises a \<open>ValidationError\<close>
  instead of returning an empty slice.
\<close>

theorem limit_results_counterexample:
  "python_int ''-1'' = Some (- 1)
   \<and> limit_results
        (all_objects
          [\<lparr>srv_id = 1, srv_name = ''s'', srv_category_name = ''X'', srv_member = []\<rparr>,
           \<lparr>srv_id = 2, srv_name = ''s'', srv_category_name = ''X'', srv_member = []\<rparr>,
           \<lparr>srv_id = 3, srv_name = ''s'', srv_category_name = ''X'', srv_member = []\<rparr>,
           \<lparr>srv_id = 4, srv_name = ''s'', srv_category_name = ''X'', srv_member = []\<rparr>,
           \<lparr>srv_id = 5, srv_name = ''s'', srv_category_name = ''X'', srv_member = []\<rparr>]) ''-1''
     = Inl (ValidationError ''qty must be an integer'')"
  by (simp add: view_eval)



text \<open>
  Claim C6. For an authenticated caller and a non-empty \<open>by_serverid\<close> that \<open>int\<close> does
  not accept (such as \<open>"abc"\<close>), the view raises the invalid-parameter failure, a
  \<open>ValidationError\<close> whose message is exactly \<open>"Server id must be an integer"\<close>.
\<close>

theorem server_id_not_integer:
  assumes "is_authenticated (req_user request)"
      and "query_params request ''by_serverid'' = Some by_serverid"
      and "by_serverid \<noteq> []"
      and "python_int by_serverid = None"
  shows "get_filtered_queryset self_queryset request =
           Inl (ValidationError ''Server id must be an integer'')"
  using assms
  by (simp add: get_filtered_queryset_def by_user_step_authenticated by_serverid_step_def
      filter_by_server_id_not_integer)

theorem server_id_not_integer_witness:
  "is_authenticated (req_user \<lparr>query_params = map_of [(''by_serverid'', ''abc'')], req_user = User 1\<rparr>)
   \<and> python_int ''abc'' = None
   \<and> get_filtered_queryset
        (all_objects [\<lparr>srv_id = 1, srv_name = ''a'', srv_category_name = ''X'', srv_member = [1, 2]\<rparr>])
        \<lparr>query_params = map_of [(''by_serverid'', ''abc'')], req_user = User 1\<rparr>
       = Inl (ValidationError ''Server id must be an integer'')"
  using server_id_not_integer [of
      "\<lparr>query_params = map_of [(''by_serverid'', ''abc'')], req_user = User 1\<rparr>"
      "''abc''"
      "all_objects [\<lparr>srv_id = 1, srv_name = ''a'', srv_category_name = ''X'', srv_member = [1, 2]\<rparr>]"]
  by (simp add: python_int_eval)

text \<open>
  Claim C7, as amended. For a non-empty \<open>qty\<close> that \<open>int\<close> does not accept (such as
  \<open>"abc"\<close>), the view raises a \<open>ValidationError\<close> whose message is exactly
  \<open>"qty must be an integer"\<close>, provided that the steps before the quantity limit raise
  nothing, that is, the by-user step and the by-server-ID step succeed.
\<close>

theorem qty_not_integer:
  assumes "query_params request ''qty'' = Some qty"
      and "qty \<noteq> []"
      and "python_int qty = None"
      and "by_user_step request (category_step request self_queryset) = Inr u"
      and "by_serverid_step request (with_num_members_step request u) = Inr v"
  shows "get_filtered_queryset self_queryset request =
           Inl (ValidationError ''qty must be an integer'')"
  using assms
  by (simp add: get_filtered_queryset_def qty_step_def limit_results_not_integer)

theorem qty_not_integer_witness:
  "python_int ''abc'' = None
   \<and> get_filtered_queryset
        (all_objects [\<lparr>srv_id = 1, srv_name = ''a'', srv_category_name = ''X'', srv_member = [1, 2]\<rparr>])
        \<lparr>query_params = map_of [(''qty'', ''abc'')], req_user = AnonymousUser\<rparr>
       = Inl (ValidationError ''qty must be an integer'')"
  using qty_not_integer [of
      "\<lparr>query_params = map_of [(''qty'', ''abc'')], req_user = AnonymousUser\<rparr>"
      "''abc''"
      "all_objects [\<lparr>srv_id = 1, srv_name = ''a'', srv_category_name = ''X'', srv_member = [1, 2]\<rparr>]"
      "all_objects [\<lparr>srv_id = 1, srv_name = ''a'', srv_category_name = ''X'', srv_member = [1, 2]\<rparr>]"
      "all_objects [\<lparr>srv_id = 1, srv_name = ''a'', srv_category_name = ''X'', srv_member = [1, 2]\<rparr>]"]
  by (simp add: python_int_eval step_defs is_true_def)

text \<open>
  The claim as stated fails when an earlier step raises: with \<open>by_user=true\<close> and a caller
  who is not authenticated, \<open>qty="abc"\<close> is never read.
\<close>

theorem qty_not_integer_counterexample:
  "python_int ''abc'' = None
   \<and> get_filtered_queryset
        (all_objects [\<lparr>srv_id = 1, srv_name = ''a'', srv_category_name = ''X'', srv_member = [1, 2]\<rparr>])
        \<lparr>query_params = map_of [(''by_user'', ''true''), (''qty'', ''abc'')], req_user = AnonymousUser\<rparr>
       = Inl AuthenticationFailed"
  by (simp add: view_eval)

text \<open>
  Claim C8. The flag read from \<open>by_user\<close> or \<open>with_num_members\<close> is true exactly when the
  raw value is the string \<open>"true"\<close>; \<open>"True"\<close>, \<open>"1"\<close>, the empty string and an absent
  parameter read as false. Accordingly, with any other raw value the by-user step and the
  annotation step leave the collection as it is, and with \<open>"true"\<close> they check the caller and
  filter, and annotate.
\<close>

theorem boolean_parameters:
  "(is_true raw \<longleftrightarrow> raw = Some ''true'')
   \<and> \<not> is_true (Some ''True'') \<and> \<not> is_true (Some ''1'') \<and> \<not> is_true (Some [])
   \<and> \<not> is_true None
   \<and> (raw \<noteq> Some ''true'' \<longrightarrow>
        by_user_step (request\<lparr>query_params := (query_params request)(''by_user'' := raw)\<rparr>) queryset
          = Inr queryset
      \<and> with_num_members_step
          (request\<lparr>query_params := (query_params request)(''with_num_members'' := raw)\<rparr>) queryset
          = queryset)
   \<and> (raw = Some ''true'' \<longrightarrow>
        by_user_step (request\<lparr>query_params := (query_params request)(''by_user'' := raw)\<rparr>) queryset
          = (if is_authenticated (req_user request)
             then Inr (filter_member queryset (the (user_id (req_user request))))
             else Inl AuthenticationFailed)
      \<and> with_num_members_step
          (request\<lparr>query_params := (query_params request)(''with_num_members'' := raw)\<rparr>) queryset
          = annotate_num_members queryset)"
  by (simp add: is_true_def by_user_step_def with_num_members_step_def)

theorem boolean_parameters_witness:
  "Some ''True'' \<noteq> Some ''true''
   \<and> \<not> is_true (Some ''True'')
   \<and> by_user_step \<lparr>query_params = map_of [(''by_user'', ''True'')], req_user = User 1\<rparr>
        (all_objects [\<lparr>srv_id = 1, srv_name = ''a'', srv_category_name = ''X'', srv_member = [1, 2]\<rparr>])
       = Inr (all_objects [\<lparr>srv_id = 1, srv_name = ''a'', srv_category_name = ''X'', srv_member = [1, 2]\<rparr>])"
proof -
  have "\<lparr>query_params = map_of [(''by_user'', ''True'')], req_user = User 1\<rparr>
      = \<lparr>query_params = map_of [], req_user = User 1\<rparr>
          \<lparr>query_params := (query_params \<lparr>query_params = map_of [], req_user = User 1\<rparr>)
             (''by_user'' := Some ''True'')\<rparr>"
    by (rule request.equality) (auto simp add: fun_eq_iff)
  then show ?thesis
    using boolean_parameters [of "Some ''True''"
      "\<lparr>query_params = map_of [], req_user = User 1\<rparr>"
      "all_objects [\<lparr>srv_id = 1, srv_name = ''a'', srv_category_name = ''X'', srv_member = [1, 2]\<rparr>]"]
    by simp
qed

text \<open>
  Claim C9: with \<open>with_num_members=true\<close>, \<open>num_members\<close> is the number of distinct
  members of each record. The view computes something else when the by-user filter is
  applied as well: the count then runs over the member join as restricted by
  \<open>filter(member=uid)\<close>, so a server with the two members 1 and 2, listed for user 1,
  gets \<open>num_members = 1\<close>.
\<close>

theorem num_members_after_by_user:
  "get_filtered_queryset
        (all_objects [\<lparr>srv_id = 1, srv_name = ''a'', srv_category_name = ''X'', srv_member = [1, 2]\<rparr>])
        \<lparr>query_params = map_of [(''by_user'', ''true''), (''with_num_members'', ''true'')], req_user = User 1\<rparr>
     = Inr \<lparr>rows = [\<lparr>obj = \<lparr>srv_id = 1, srv_name = ''a'', srv_category_name = ''X'', srv_member = [1, 2]\<rparr>, num_members = Some 1\<rparr>], member_join = Some 1\<rparr>
   \<and> card (set (srv_member \<lparr>srv_id = 1, srv_name = ''a'', srv_category_name = ''X'', srv_member = [1, 2]\<rparr>)) = 2"
  by (simp add: view_eval)

text \<open>
  Claim C10. In the by-server-ID step the authentication check comes first: for a caller who
  is not authenticated and any non-empty \<open>by_serverid\<close>, whether or not \<open>int\<close> accepts it
  and whether or not it matches a record, the step and the view raise
  \<open>AuthenticationFailed\<close>, never a \<open>ValidationError\<close>.
\<close>

theorem by_serverid_unauthenticated:
  assumes "\<not> is_authenticated (req_user request)"
      and "query_params request ''by_serverid'' = Some by_serverid"
      and "by_serverid \<noteq> []"
  shows "filter_by_server_id request queryset by_serverid = Inl AuthenticationFailed
       \<and> get_filtered_queryset self_queryset request = Inl AuthenticationFailed"
proof
  show "filter_by_server_id request queryset by_serverid = Inl AuthenticationFailed"
    using assms(1) by (rule filter_by_server_id_anonymous)
next
  show "get_filtered_queryset self_queryset request = Inl AuthenticationFailed"
  proof (cases "by_user_step request (category_step request self_queryset)")
    case (Inl e)
    then show ?thesis
      by (simp add: get_filtered_queryset_def by_user_step_error)
  next
    case (Inr u)
    then show ?thesis
      using assms
      by (simp add: get_filtered_queryset_def by_serverid_step_def filter_by_server_id_anonymous)
  qed
qed

theorem by_serverid_unauthenticated_witness:
  "\<not> is_authenticated (req_user \<lparr>query_params = map_of [(''by_serverid'', ''abc'')], req_user = AnonymousUser\<rparr>)
   \<and> query_params \<lparr>query_params = map_of [(''by_serverid'', ''abc'')], req_user = AnonymousUser\<rparr> ''by_serverid'' = Some ''abc''
   \<and> python_int ''abc'' = None
   \<and> get_filtered_queryset
        (all_objects [\<lparr>srv_id = 1, srv_name = ''a'', srv_category_name = ''X'', srv_member = [1, 2]\<rparr>])
        \<lparr>query_params = map_of [(''by_serverid'', ''abc'')], req_user = AnonymousUser\<rparr>
       = Inl AuthenticationFailed"
  using by_serverid_unauthenticated [of
      "\<lparr>query_params = map_of [(''by_serverid'', ''abc'')], req_user = AnonymousUser\<rparr>"
      "''abc''" _
      "all_objects [\<lparr>srv_id = 1, srv_name = ''a'', srv_category_name = ''X'', srv_member = [1, 2]\<rparr>]"]
  by (simp add: python_int_eval)

end
